theory Spec2Isabelle
  imports Main "HOL-Library.Word"
begin

section \<open>Status (be/src/common/status.h)\<close>

text \<open>
  \<open>TStatusCode::type\<close> is an enum generated from a Thrift file that is not among the
  available sources. The constructors below are the members \<open>status.h\<close> names;
  \<open>TSTATUSCODE_OTHER\<close> stands for every member the header does not mention.
\<close>

datatype TStatusCode =
    OK | UNKNOWN | PUBLISH_TIMEOUT | MEM_ALLOC_FAILED | BUFFER_ALLOCATION_FAILED
  | INVALID_ARGUMENT | MINIMUM_RESERVATION_UNAVAILABLE | CORRUPTION | IO_ERROR | NOT_FOUND
  | ALREADY_EXIST | NOT_IMPLEMENTED_ERROR | END_OF_FILE | INTERNAL_ERROR | RUNTIME_ERROR
  | CANCELLED | MEM_LIMIT_EXCEEDED | THRIFT_RPC_ERROR | TIMEOUT | TOO_MANY_TASKS
  | SERVICE_UNAVAILABLE | UNINITIALIZED | ABORTED | DATA_QUALITY_ERROR
  | OLAP_ERR_VERSION_ALREADY_MERGED | DUPLICATE_RPC_INVOCATION | GLOBAL_DICT_ERROR
  | TXN_IN_PROCESSING | TXN_NOT_EXISTS | LABEL_ALREADY_EXISTS | RESOURCE_BUSY | SR_EAGAIN
  | REMOTE_FILE_NOT_FOUND | CAPACITY_LIMIT_EXCEED | TSTATUSCODE_OTHER nat

text \<open>
  The array \<open>_state\<close> points to, as the layout comment of \<open>status.h\<close> gives it: the code
  (\<open>_state[4]\<close>), the message (\<open>_state[5 .. 5 + len1]\<close>) and the context
  (\<open>_state[5 + len1 .. 5 + len1 + len2]\<close>). The two length fields (two bytes each) are
  the lengths of the two strings; how a text that does not fit is cut is decided in
  \<open>status.cpp\<close>, so the strings stand here as they are.
\<close>

record state_array =
  sa_code :: TStatusCode
  sa_message :: string
  sa_context :: string

text \<open>
  The pointer \<open>_state\<close>. \<open>Nullptr\<close> is the OK status; \<open>Heap_state\<close> is an array allocated with
  \<open>new[]\<close>.

  Modelled from the spec: \<open>moved_from_state()\<close> and \<open>is_moved_from()\<close> are declared in
  \<open>status.h\<close> and defined in \<open>status.cpp\<close>, which is not among the available sources.
  The spec describes a "moved-from" sentinel pointer that is recognised by pointer
  identity; \<open>Moved_from_state\<close> is that pointer. It is told apart from every other state:
  the header declares \<open>is_moved_from\<close> as the test "whether this Status was the rhs of a
  move operation", and the destructor hands \<open>_state\<close> to \<open>delete[]\<close> only
  \<open>if (!is_moved_from(_state))\<close>, so the sentinel is an array that was not allocated with
  \<open>new[]\<close>. Its bytes are not given anywhere, so they are carried by the constructor and
  every operation that produces the sentinel takes them as the parameter \<open>mfs\<close>.
\<close>

datatype state_ptr =
    Nullptr
  | Moved_from_state state_array
  | Heap_state state_array

text \<open>
  \<open>class Status\<close>: the pointer and the \<open>mutable bool _checked\<close>. The flag exists only under
  \<open>STARROCKS_ASSERT_STATUS_CHECKED\<close>; it is kept here in every build and only the destructor
  of a strict build reads it.
\<close>

record status =
  state :: state_ptr
  checked :: bool

definition Status_default :: status where
  "Status_default = \<lparr>state = Nullptr, checked = False\<rparr>"

definition mark_checked :: "status \<Rightarrow> status" where
  "mark_checked s = s\<lparr>checked := True\<rparr>"

definition must_check :: "status \<Rightarrow> status" where
  "must_check s = s\<lparr>checked := False\<rparr>"

text \<open>
  Modelled from the spec: pointer identity with the sentinel (see \<open>state_ptr\<close>). The
  header's comment on the declaration: "Indicates whether this Status was the rhs of a
  move operation."
\<close>

fun is_moved_from :: "state_ptr \<Rightarrow> bool" where
  "is_moved_from (Moved_from_state a) = True"
| "is_moved_from Nullptr = False"
| "is_moved_from (Heap_state a) = False"

text \<open>
  \<open>copy_state\<close> is defined in \<open>status.cpp\<close>; the header says that the copy constructor
  "makes copy of error detail": a fresh \<open>new[]\<close> array with the same bytes.
\<close>

fun copy_state :: "state_ptr \<Rightarrow> state_ptr" where
  "copy_state Nullptr = Nullptr"
| "copy_state (Moved_from_state a) = Heap_state a"
| "copy_state (Heap_state a) = Heap_state a"

text \<open>
  \<open>Status(TStatusCode::type code, Slice msg, Slice ctx)\<close> is defined in \<open>status.cpp\<close>; by the
  layout comment it allocates the array holding its three arguments.
\<close>

definition Status_ctor :: "TStatusCode \<Rightarrow> string \<Rightarrow> string \<Rightarrow> status" where
  "Status_ctor c msg ctx =
     \<lparr>state = Heap_state \<lparr>sa_code = c, sa_message = msg, sa_context = ctx\<rparr>, checked = False\<rparr>"

definition Status_OK :: status where
  "Status_OK = Status_default"

definition Status_NotFound :: "string \<Rightarrow> status" where
  "Status_NotFound msg = Status_ctor NOT_FOUND msg []"

definition Status_NotSupported :: "string \<Rightarrow> status" where
  "Status_NotSupported msg = Status_ctor NOT_IMPLEMENTED_ERROR msg []"

definition Status_Cancelled :: "string \<Rightarrow> status" where
  "Status_Cancelled msg = Status_ctor CANCELLED msg []"


definition Status_IOError :: "string \<Rightarrow> status" where
  "Status_IOError msg = Status_ctor IO_ERROR msg []"

definition Status_InternalError :: "string \<Rightarrow> status" where
  "Status_InternalError msg = Status_ctor INTERNAL_ERROR msg []"

text \<open>
  The queries. In the source each of them also calls \<open>mark_checked()\<close> on the object; the
  value returned is modelled here and the operations below apply \<open>mark_checked\<close> where the
  source's call changes an object they return.
\<close>

definition ok :: "status \<Rightarrow> bool" where
  "ok s = (state s = Nullptr)"

fun state_code :: "state_ptr \<Rightarrow> TStatusCode" where
  "state_code Nullptr = OK"
| "state_code (Moved_from_state a) = sa_code a"
| "state_code (Heap_state a) = sa_code a"

definition code :: "status \<Rightarrow> TStatusCode" where
  "code s = state_code (state s)"

text \<open>
  \<open>message()\<close> is defined in \<open>status.cpp\<close>; the header: "The message portion of the Status.
  For OK statuses, this returns an empty string." The context portion is read the same way.
\<close>

fun state_message :: "state_ptr \<Rightarrow> string" where
  "state_message Nullptr = []"
| "state_message (Moved_from_state a) = sa_message a"
| "state_message (Heap_state a) = sa_message a"

definition message :: "status \<Rightarrow> string" where
  "message s = state_message (state s)"

fun state_context :: "state_ptr \<Rightarrow> string" where
  "state_context Nullptr = []"
| "state_context (Moved_from_state a) = sa_context a"
| "state_context (Heap_state a) = sa_context a"

definition context_of :: "status \<Rightarrow> string" where
  "context_of s = state_context (state s)"

definition is_not_found :: "status \<Rightarrow> bool" where
  "is_not_found s = (code s = NOT_FOUND)"

definition is_cancelled_status :: "status \<Rightarrow> bool" where
  "is_cancelled_status s = (code s = CANCELLED)"

definition is_not_supported :: "status \<Rightarrow> bool" where
  "is_not_supported s = (code s = NOT_IMPLEMENTED_ERROR)"

text \<open>
  The copy constructor \<open>Status(const Status& s)\<close>: the new object and the source after the
  call (\<open>s.mark_checked(); must_check();\<close>).
\<close>

definition copy_ctor :: "status \<Rightarrow> status \<times> status" where
  "copy_ctor s =
     (\<lparr>state = (if state s = Nullptr then Nullptr else copy_state (state s)), checked = False\<rparr>,
      mark_checked s)"

text \<open>
  The move constructor \<open>Status(Status&& s)\<close>: the new object takes the pointer, the source is
  left with \<open>moved_from_state()\<close> and is marked checked.
\<close>

definition move_ctor :: "state_array \<Rightarrow> status \<Rightarrow> status \<times> status" where
  "move_ctor mfs s =
     (\<lparr>state = state s, checked = False\<rparr>,
      mark_checked (s\<lparr>state := Moved_from_state mfs\<rparr>))"

text \<open>
  The destructor. \<open>dtor_reports strict s\<close>: the "Failed to check status" report is printed
  (only a build with \<open>STARROCKS_ASSERT_STATUS_CHECKED\<close>, \<open>strict\<close>, has the test).
  \<open>dtor_frees s\<close>: the array handed to \<open>delete[]\<close>, if any.
\<close>

definition dtor_reports :: "bool \<Rightarrow> status \<Rightarrow> bool" where
  "dtor_reports strict s = (strict \<and> \<not> checked s)"

definition dtor_frees :: "status \<Rightarrow> state_ptr option" where
  "dtor_frees s = (if \<not> is_moved_from (state s) then Some (state s) else None)"

text \<open>
  \<open>operator=(const Status& s)\<close> for \<open>this != &s\<close>: \<open>Status tmp(s); swap(_state, tmp._state);
  tmp.mark_checked(); must_check();\<close>. The result is the object assigned to and the source;
  \<open>tmp\<close>, marked checked, takes the old array to its destructor.
\<close>

definition copy_assign :: "status \<Rightarrow> status \<Rightarrow> status \<times> status" where
  "copy_assign this s =
     (let (tmp, s') = copy_ctor s
      in (must_check (this\<lparr>state := state tmp\<rparr>), s'))"

text \<open>\<open>operator=(Status&& s)\<close> for \<open>this != &s\<close>: the same with \<open>Status tmp(std::move(s))\<close>.\<close>

definition move_assign :: "state_array \<Rightarrow> status \<Rightarrow> status \<Rightarrow> status \<times> status" where
  "move_assign mfs this s =
     (let (tmp, s') = move_ctor mfs s
      in (must_check (this\<lparr>state := state tmp\<rparr>), s'))"

text \<open>
  \<open>Status::update(const Status& new_status)\<close> and \<open>Status::update(Status&& new_status)\<close>:
  the pair is \<open>*this\<close> and \<open>new_status\<close> after the call. \<open>ok()\<close> marks \<open>*this\<close> checked in both
  branches. The two are different objects here; when they are the same object the
  assignment is skipped by its \<open>this != &s\<close> test and the state stays as it is.
\<close>

definition update :: "status \<Rightarrow> status \<Rightarrow> status \<times> status" where
  "update this new_status =
     (let n = mark_checked new_status; t = mark_checked this
      in if ok this
         then (let (t', n') = copy_assign t n in (must_check t', n'))
         else (t, n))"

definition update_move :: "state_array \<Rightarrow> status \<Rightarrow> status \<Rightarrow> status \<times> status" where
  "update_move mfs this new_status =
     (let n = mark_checked new_status; t = mark_checked this
      in if ok this
         then (let (t', n') = move_assign mfs t n in (must_check t', n'))
         else (t, n))"

text \<open>
  \<open>ignore_not_found\<close>: \<open>return status.is_not_found() ? Status::OK() : status;\<close>. The value
  returned is a copy of the argument.
\<close>

definition ignore_not_found :: "status \<Rightarrow> status" where
  "ignore_not_found s = (if is_not_found s then Status_OK else fst (copy_ctor s))"

text \<open>
  Modelled from the spec: \<open>clone_and_append_context\<close> is defined in \<open>status.cpp\<close>, which is
  not among the available sources. By the spec it annotates a failure with the place where
  it was observed "without changing its kind" and is a no-op on success; the header's
  \<open>copy_state_with_extra_ctx\<close> names the mechanism, a copy of the array with more context.
  The line number is passed as its decimal text.
\<close>

fun state_with_extra_ctx :: "state_ptr \<Rightarrow> string \<Rightarrow> state_ptr" where
  "state_with_extra_ctx Nullptr ctx = Nullptr"
| "state_with_extra_ctx (Moved_from_state a) ctx =
     Heap_state (a\<lparr>sa_context := sa_context a @ ctx\<rparr>)"
| "state_with_extra_ctx (Heap_state a) ctx =
     Heap_state (a\<lparr>sa_context := sa_context a @ ctx\<rparr>)"

definition clone_and_append_context :: "string \<Rightarrow> string \<Rightarrow> string \<Rightarrow> status \<Rightarrow> status" where
  "clone_and_append_context filename line expr s =
     \<lparr>state = state_with_extra_ctx (state s)
                (CHR 0x0A # filename @ '':'' @ line @ '' '' @ expr),
      checked = False\<rparr>"

subsection \<open>The wire forms\<close>

text \<open>
  Modelled from the spec: \<open>Status(const TStatus&)\<close>, \<open>Status(const StatusPB&)\<close>,
  \<open>to_thrift\<close> and \<open>to_protobuf\<close> are declared in \<open>status.h\<close> and defined in \<open>status.cpp\<close>,
  and \<open>TStatus\<close> and \<open>StatusPB\<close> are generated types; none of them is among the available
  sources. By the spec "a success value has no payload; a failure is serialized as
  { code: integer, message: variable-length bytes, context: variable-length bytes }", and
  the context "may be dropped by lossy transports": \<open>keeps_context\<close> says whether the
  transport carries it.
\<close>

datatype wire_status =
    Wire_success
  | Wire_failure TStatusCode string string

definition to_wire :: "bool \<Rightarrow> status \<Rightarrow> wire_status" where
  "to_wire keeps_context s =
     (if ok s then Wire_success
      else Wire_failure (code s) (message s) (if keeps_context then context_of s else []))"

definition Status_from_wire :: "wire_status \<Rightarrow> status" where
  "Status_from_wire t =
     (case t of
        Wire_success \<Rightarrow> Status_default
      | Wire_failure c msg ctx \<Rightarrow> Status_ctor c msg ctx)"

definition to_thrift :: "bool \<Rightarrow> status \<Rightarrow> wire_status" where
  "to_thrift keeps_context s = to_wire keeps_context s"

definition Status_from_TStatus :: "wire_status \<Rightarrow> status" where
  "Status_from_TStatus t = Status_from_wire t"

definition to_protobuf :: "bool \<Rightarrow> status \<Rightarrow> wire_status" where
  "to_protobuf keeps_context s = to_wire keeps_context s"

definition Status_from_StatusPB :: "wire_status \<Rightarrow> status" where
  "Status_from_StatusPB t = Status_from_wire t"

section \<open>DirManager::init (be/src/exec/spill/dir_manager.cpp)\<close>

subsection \<open>The regular expression\<close>











subsection \<open>The collaborators and the manager\<close>









section \<open>HashJoinBuildOperator (be/src/exec/pipeline/hashjoin/hash_join_build_operator.cpp)\<close>

subsection \<open>Outcomes, assertions\<close>

text \<open>
  A call returns a value, or terminates the process with a fatal message, or runs into
  undefined behaviour (a write outside an array), after which nothing is known.
\<close>

datatype 'a outcome =
    Returned 'a
  | Aborted string
  | Undefined string

text \<open>
  \<open>CHECK\<close> and \<open>DCHECK\<close> are the assertion macros of glog, which \<open>common/logging.h\<close>
  brings in. A \<open>CHECK\<close> whose condition is false logs the streamed message at severity FATAL
  and terminates the process, in every build; \<open>DCHECK\<close> is a \<open>CHECK\<close> in a debug build
  (\<open>dchecks\<close>) and is compiled out under \<open>NDEBUG\<close>. The continuation \<open>k\<close> is the rest of
  the function.
\<close>

definition CHECK :: "bool \<Rightarrow> string \<Rightarrow> 'a outcome \<times> 'w \<Rightarrow> 'w \<Rightarrow> 'a outcome \<times> 'w" where
  "CHECK cond msg k w = (if cond then k else (Aborted msg, w))"

definition DCHECK :: "bool \<Rightarrow> bool \<Rightarrow> string \<Rightarrow> 'a outcome \<times> 'w \<Rightarrow> 'w \<Rightarrow> 'a outcome \<times> 'w" where
  "DCHECK dchecks cond msg k w = (if dchecks then CHECK cond msg k w else k)"

text \<open>
  \<open>ONCE_DETECT\<close> is a macro of \<open>util/race_detect.h\<close>, which is not among the available
  sources, so its expansion is a parameter of \<open>set_finishing\<close>. Its only argument is the
  member \<open>_set_finishing_once\<close>; as the first statement of a function that returns a
  \<open>Status\<close> it can update that flag and then let the function go on, return a status of
  its own, or terminate the process.
\<close>

datatype once_action =
    Once_proceed
  | Once_return status
  | Once_abort

type_synonym once_detect = "bool \<Rightarrow> bool \<times> once_action"

subsection \<open>The operator and the objects it shares\<close>

datatype TJoinDistributionMode =
    BROADCAST
  | TJOINDISTRIBUTIONMODE_OTHER nat

text \<open>
  The members of the operator that the functions below read or write. \<open>_plan_node_id\<close> and
  \<open>_driver_sequence\<close> are \<open>int32_t\<close>; no arithmetic is done on them, and the one conversion
  (\<open>size_t merger_index = _driver_sequence\<close>) is written out in \<open>merger_index_of\<close>.
\<close>

record hash_join_build_operator =
  plan_node_id :: int
  driver_sequence :: int
  distribution_mode :: TJoinDistributionMode
  is_finished :: bool
  set_finishing_once :: bool

definition merger_index_of :: "int \<Rightarrow> nat" where
  "merger_index_of ds = nat (ds mod 2 ^ 64)"

text \<open>
  A \<open>RuntimeFilterBuildDescriptor\<close>: its filter id and \<open>runtime_filter()\<close>, which is
  \<open>nullptr\<close> or a filter with its \<open>bf_alloc_size()\<close> (a \<open>size_t\<close>). An in-filter (an
  \<open>ExprContext*\<close>) and a key column are opaque and stand as numbers.
\<close>

record RuntimeFilterBuildDescriptor =
  filter_id :: int
  runtime_filter :: "64 word option"

text \<open>The \<open>RuntimeFilterCollector\<close> built from the merged in-filters and bloom filters.\<close>

record RuntimeFilterCollector =
  in_filters :: "nat list"
  bloom_filters :: "RuntimeFilterBuildDescriptor list"

datatype join_phase = BUILD | PROBE

text \<open>Every call the operator makes on another object, in program order.\<close>

datatype call =
    Call_Operator_prepare
  | Call_incr_builder
  | Call_ref
  | Call_prepare_builder
  | Call_build_ht
  | Call_create_runtime_filters
  | Call_retain_string_key_columns int
  | Call_add_partial_filters nat nat "nat list" "nat list" "RuntimeFilterBuildDescriptor list"
  | Call_counter_update "64 word"
  | Call_publish_runtime_filters "RuntimeFilterBuildDescriptor list"
  | Call_set_collector int
  | Call_enter_probe_phase

text \<open>
  The objects the operator shares with the other lanes. Their classes (\<open>HashJoiner\<close>,
  \<open>PartialRuntimeFilterMerger\<close>, \<open>RuntimeFilterHub\<close>, \<open>RuntimeFilterPort\<close>) are not among
  the available sources; the fields are the parts of their state that the spec names:
  the merger's expected-builder count, the Joiner's reference count and phase, the metric
  \<open>partial_runtime_bloom_filter_bytes\<close>, the factory's \<open>_string_key_columns\<close>, the filters
  published for broadcast, and the Hub's collectors keyed by plan-node id.
\<close>

record world =
  calls :: "call list"
  num_builders :: nat
  joiner_refs :: nat
  joiner_phase :: join_phase
  partial_runtime_bloom_filter_bytes :: "64 word"
  string_key_columns :: "nat list list"
  published :: "RuntimeFilterBuildDescriptor list list"
  collectors :: "int \<Rightarrow> RuntimeFilterCollector option"

text \<open>
  What the collaborators answer during one call of the operator: the cancellation flag of
  the \<open>RuntimeState\<close>, the statuses of \<open>Operator::prepare\<close>, \<open>prepare_builder\<close>, \<open>build_ht\<close>
  and \<open>create_runtime_filters\<close>, the Joiner's row count, its partial filters (in-filters,
  bloom-filter build parameters, bloom filters) and its string key columns, the
  \<open>StatusOr<bool>\<close> of \<open>add_partial_filters\<close> (\<open>Inl\<close> the failure), and the merger's total
  filters.
\<close>

record env =
  rs_is_cancelled :: bool
  Operator_prepare_result :: status
  prepare_builder_result :: status
  build_ht_result :: status
  create_runtime_filters_result :: status
  ht_row_count :: nat
  partial_in_filters :: "nat list"
  partial_bloom_filter_build_params :: "nat list"
  partial_bloom_filters :: "RuntimeFilterBuildDescriptor list"
  joiner_string_key_columns :: "nat list"
  add_partial_filters_result :: "status + bool"
  total_in_filters :: "nat list"
  total_bloom_filters :: "RuntimeFilterBuildDescriptor list"

definition record_call :: "call \<Rightarrow> world \<Rightarrow> world" where
  "record_call c w = w\<lparr>calls := calls w @ [c]\<rparr>"

text \<open>
  Modelled from the spec: \<open>PartialRuntimeFilterMerger::incr_builder\<close> "increments
  expected-builder count" and \<open>HashJoiner::ref\<close> acquires one ownership reference; both
  classes are not among the available sources.
\<close>

definition incr_builder :: "world \<Rightarrow> world" where
  "incr_builder w = record_call Call_incr_builder (w\<lparr>num_builders := num_builders w + 1\<rparr>)"

definition joiner_ref :: "world \<Rightarrow> world" where
  "joiner_ref w = record_call Call_ref (w\<lparr>joiner_refs := joiner_refs w + 1\<rparr>)"

text \<open>
  \<open>HashJoinBuildOperatorFactory::retain_string_key_columns\<close>: the assignment
  \<open>_string_key_columns[driver_sequence] = std::move(columns)\<close>. \<open>_string_key_columns\<close> is
  a \<open>std::vector\<close> that \<open>create\<close> resized to the degree of parallelism, and
  \<open>operator[]\<close> checks no bound: for a \<open>driver_sequence\<close> below zero (a huge index once
  converted to \<open>size_t\<close>) or not below the size the write is outside the vector and the
  result is \<open>None\<close>.
\<close>

definition retain_string_key_columns :: "int \<Rightarrow> nat list \<Rightarrow> world \<Rightarrow> world option" where
  "retain_string_key_columns ds columns w =
     (if 0 \<le> ds \<and> nat ds < length (string_key_columns w)
      then Some (record_call (Call_retain_string_key_columns ds)
                   (w\<lparr>string_key_columns := (string_key_columns w)[nat ds := columns]\<rparr>))
      else None)"

text \<open>The lambda of \<open>std::accumulate\<close>, starting from \<open>0ull\<close>.\<close>

definition total_bf_bytes_of :: "RuntimeFilterBuildDescriptor list \<Rightarrow> 64 word" where
  "total_bf_bytes_of bfs =
     foldl (\<lambda>total desc. total + (case runtime_filter desc of None \<Rightarrow> 0 | Some sz \<Rightarrow> sz)) 0 bfs"

definition COUNTER_UPDATE :: "64 word \<Rightarrow> world \<Rightarrow> world" where
  "COUNTER_UPDATE v w =
     record_call (Call_counter_update v)
       (w\<lparr>partial_runtime_bloom_filter_bytes := partial_runtime_bloom_filter_bytes w + v\<rparr>)"

text \<open>
  Modelled from the spec: \<open>publish_runtime_filters\<close> hands the merged bloom filters to the
  broadcast channel, \<open>set_collector\<close> stores the collector in the Hub under the plan-node
  id, \<open>enter_probe_phase\<close> makes the Joiner probe-readable.
\<close>

definition publish_runtime_filters :: "RuntimeFilterBuildDescriptor list \<Rightarrow> world \<Rightarrow> world" where
  "publish_runtime_filters bfs w =
     record_call (Call_publish_runtime_filters bfs) (w\<lparr>published := published w @ [bfs]\<rparr>)"

definition set_collector :: "int \<Rightarrow> RuntimeFilterCollector \<Rightarrow> world \<Rightarrow> world" where
  "set_collector node_id c w =
     record_call (Call_set_collector node_id) (w\<lparr>collectors := (collectors w)(node_id := Some c)\<rparr>)"

definition enter_probe_phase :: "world \<Rightarrow> world" where
  "enter_probe_phase w = record_call Call_enter_probe_phase (w\<lparr>joiner_phase := PROBE\<rparr>)"

definition operator_file :: string where
  "operator_file = ''be/src/exec/pipeline/hashjoin/hash_join_build_operator.cpp''"

subsection \<open>prepare\<close>

definition prepare :: "env \<Rightarrow> hash_join_build_operator \<Rightarrow> world \<Rightarrow> status \<times> world" where
  "prepare e this w =
     (let w0 = record_call Call_Operator_prepare w
      in if \<not> ok (Operator_prepare_result e)
         then (clone_and_append_context operator_file ''41'' ''Operator::prepare(state)''
                 (Operator_prepare_result e), w0)
         else (let w1 = incr_builder w0;
                   w2 = joiner_ref w1;
                   w3 = joiner_ref w2;
                   w4 = record_call Call_prepare_builder w3
               in if \<not> ok (prepare_builder_result e)
                  then (clone_and_append_context operator_file ''52''
                          ''_join_builder->prepare_builder(state, _unique_metrics.get())''
                          (prepare_builder_result e), w4)
                  else (Status_OK, w4)))"

subsection \<open>pull_chunk\<close>

definition pull_chunk_msg :: string where
  "pull_chunk_msg = ''pull_chunk not supported in HashJoinBuildOperator''"

text \<open>A \<open>StatusOr<ChunkPtr>\<close> is \<open>Inl\<close> a status or \<open>Inr\<close> a chunk.\<close>

definition pull_chunk :: "hash_join_build_operator \<Rightarrow> world \<Rightarrow> (status + 'chunk) outcome \<times> world" where
  "pull_chunk this w =
     CHECK False pull_chunk_msg (Returned (Inl (Status_NotSupported pull_chunk_msg)), w) w"

subsection \<open>set_finishing\<close>

text \<open>
  The branch taken when \<open>add_partial_filters\<close> answers \<open>true\<close>: the metric, the publication
  and the Hub.
\<close>

definition publish_total_filters :: "env \<Rightarrow> hash_join_build_operator \<Rightarrow> world \<Rightarrow> world" where
  "publish_total_filters e this w =
     (let in_fs = total_in_filters e;
          bfs = total_bloom_filters e;
          w1 = COUNTER_UPDATE (total_bf_bytes_of bfs) w;
          w2 = publish_runtime_filters bfs w1
      in set_collector (plan_node_id this) \<lparr>in_filters = in_fs, bloom_filters = bfs\<rparr> w2)"

text \<open>
  The function from the construction of the \<open>DeferOp\<close> on (lines 84 to 144), without the
  deferred assignment. \<open>SCOPED_THREAD_LOCAL_MEM_TRACKER_SETTER\<close> and \<open>SCOPED_TIMER\<close> only
  charge memory and time to other accounts for the length of their scope and are left out.
\<close>

definition set_finishing_body ::
  "bool \<Rightarrow> env \<Rightarrow> hash_join_build_operator \<Rightarrow> world \<Rightarrow> status outcome \<times> world" where
  "set_finishing_body dchecks e this w =
     (if rs_is_cancelled e
      then (Returned (Status_Cancelled ''runtime state is cancelled''), w)
      else (let w1 = record_call Call_build_ht w
            in if \<not> ok (build_ht_result e)
               then (Returned (clone_and_append_context operator_file ''89''
                       ''_join_builder->build_ht(state)'' (build_ht_result e)), w1)
               else (let merger_index = merger_index_of (driver_sequence this)
                     in DCHECK dchecks
                          (distribution_mode this \<noteq> BROADCAST \<or> driver_sequence this = 0)
                          ''Check failed: _distribution_mode != TJoinDistributionMode::BROADCAST || _driver_sequence == 0''
                          (let w2 = record_call Call_create_runtime_filters w1
                           in if \<not> ok (create_runtime_filters_result e)
                              then (Returned (clone_and_append_context operator_file ''95''
                                      ''_join_builder->create_runtime_filters(state)''
                                      (create_runtime_filters_result e)), w2)
                              else (case retain_string_key_columns (driver_sequence this)
                                           (joiner_string_key_columns e) w2 of
                                      None \<Rightarrow>
                                        (Undefined ''_string_key_columns[driver_sequence] out of range'', w2)
                                    | Some w3 \<Rightarrow>
                                        (let w4 = record_call
                                               (Call_add_partial_filters merger_index (ht_row_count e)
                                                  (partial_in_filters e)
                                                  (partial_bloom_filter_build_params e)
                                                  (partial_bloom_filters e)) w3
                                         in case add_partial_filters_result e of
                                              Inl err \<Rightarrow> (Returned (fst (copy_ctor err)), w4)
                                            | Inr is_last \<Rightarrow>
                                                (let w5 = (if is_last
                                                           then publish_total_filters e this w4
                                                           else w4)
                                                 in (Returned Status_OK, enter_probe_phase w5)))))
                          w1)))"

text \<open>
  \<open>set_finishing\<close>: \<open>ONCE_DETECT\<close>, then the body under the \<open>DeferOp\<close>, whose lambda
  \<open>_is_finished = true\<close> runs when the function returns.
\<close>

definition set_finishing ::
  "once_detect \<Rightarrow> bool \<Rightarrow> env \<Rightarrow> hash_join_build_operator \<Rightarrow> world
     \<Rightarrow> status outcome \<times> hash_join_build_operator \<times> world" where
  "set_finishing once dchecks e this w =
     (case once (set_finishing_once this) of
        (flag, Once_abort) \<Rightarrow>
          (Aborted ''ONCE_DETECT'', this\<lparr>set_finishing_once := flag\<rparr>, w)
      | (flag, Once_return st) \<Rightarrow>
          (Returned st, this\<lparr>set_finishing_once := flag\<rparr>, w)
      | (flag, Once_proceed) \<Rightarrow>
          (case set_finishing_body dchecks e this w of
             (Returned st, w') \<Rightarrow>
               (Returned st, this\<lparr>set_finishing_once := flag, is_finished := True\<rparr>, w')
           | (Aborted msg, w') \<Rightarrow>
               (Aborted msg, this\<lparr>set_finishing_once := flag\<rparr>, w')
           | (Undefined msg, w') \<Rightarrow>
               (Undefined msg, this\<lparr>set_finishing_once := flag\<rparr>, w')))"

subsection \<open>Two calls in a row\<close>

text \<open>
  The driver calling \<open>set_finishing\<close> twice on the same operator: the outcome and the shared
  objects after the first call and after the second.
\<close>

definition set_finishing_twice ::
  "once_detect \<Rightarrow> bool \<Rightarrow> env \<Rightarrow> env \<Rightarrow> hash_join_build_operator \<Rightarrow> world
     \<Rightarrow> (status outcome \<times> world) \<times> (status outcome \<times> world)" where
  "set_finishing_twice once dchecks e1 e2 this w =
     (let (r1, this1, w1) = set_finishing once dchecks e1 this w;
          (r2, this2, w2) = set_finishing once dchecks e2 this1 w1
      in ((r1, w1), (r2, w2)))"

text \<open>Two outcomes are the same: both calls returned, with the same code and message.\<close>

fun same_outcome :: "status outcome \<Rightarrow> status outcome \<Rightarrow> bool" where
  "same_outcome (Returned a) (Returned b) = (code a = code b \<and> message a = message b)"
| "same_outcome r r' = False"

text \<open>
  The second call "is a no-op that performs no build or filter work and returns the same
  outcome as the first call".
\<close>

definition second_call_is_noop ::
  "once_detect \<Rightarrow> bool \<Rightarrow> env \<Rightarrow> env \<Rightarrow> hash_join_build_operator \<Rightarrow> world \<Rightarrow> bool" where
  "second_call_is_noop once dchecks e1 e2 this w =
     (case set_finishing_twice once dchecks e1 e2 this w of
        ((r1, w1), (r2, w2)) \<Rightarrow> w2 = w1 \<and> same_outcome r1 r2)"

subsection \<open>Concrete operators, environments and expansions of ONCE_DETECT\<close>

definition lane0 :: hash_join_build_operator where
  "lane0 = \<lparr>plan_node_id = 7, driver_sequence = 0, distribution_mode = BROADCAST,
             is_finished = False, set_finishing_once = False\<rparr>"

definition world0 :: world where
  "world0 = \<lparr>calls = [], num_builders = 0, joiner_refs = 0, joiner_phase = BUILD,
              partial_runtime_bloom_filter_bytes = 0, string_key_columns = [[], [], [], []],
              published = [], collectors = (\<lambda>node_id. None)\<rparr>"

definition bfs0 :: "RuntimeFilterBuildDescriptor list" where
  "bfs0 = [\<lparr>filter_id = 1, runtime_filter = Some 4096\<rparr>, \<lparr>filter_id = 2, runtime_filter = None\<rparr>,
           \<lparr>filter_id = 3, runtime_filter = Some 8192\<rparr>]"

definition env_ok :: env where
  "env_ok = \<lparr>rs_is_cancelled = False, Operator_prepare_result = Status_OK,
              prepare_builder_result = Status_OK, build_ht_result = Status_OK,
              create_runtime_filters_result = Status_OK, ht_row_count = 1000,
              partial_in_filters = [1], partial_bloom_filter_build_params = [1, 2],
              partial_bloom_filters = bfs0,
              joiner_string_key_columns = [5, 6], add_partial_filters_result = Inr True,
              total_in_filters = [1], total_bloom_filters = bfs0\<rparr>"

definition env_cancelled :: env where
  "env_cancelled = env_ok\<lparr>rs_is_cancelled := True\<rparr>"

text \<open>
  Three expansions \<open>ONCE_DETECT\<close> can have: nothing at all, an assertion that is fatal on the
  second call, and a guard that sets the flag and returns success on the second call.
\<close>

definition once_detect_off :: once_detect where
  "once_detect_off flag = (flag, Once_proceed)"

definition once_detect_fatal :: once_detect where
  "once_detect_fatal flag = (True, if flag then Once_abort else Once_proceed)"

definition once_detect_guard :: once_detect where
  "once_detect_guard flag = (True, if flag then Once_return Status_OK else Once_proceed)"

text \<open>A sentinel array, for the concrete statements about moved-from statuses.\<close>

definition sentinel0 :: state_array where
  "sentinel0 = \<lparr>sa_code = INTERNAL_ERROR, sa_message = [], sa_context = []\<rparr>"



section \<open>Properties of Status\<close>

lemma update_ok_adopts:
  "ok s \<Longrightarrow> code (fst (update s n)) = code n \<and> message (fst (update s n)) = message n
     \<and> context_of (fst (update s n)) = context_of n"
  by (cases "state n")
     (simp_all add: update_def copy_assign_def copy_ctor_def must_check_def mark_checked_def
        ok_def code_def message_def context_of_def)

lemma update_move_ok_adopts:
  "ok s \<Longrightarrow> code (fst (update_move mfs s n)) = code n \<and> message (fst (update_move mfs s n)) = message n
     \<and> context_of (fst (update_move mfs s n)) = context_of n"
  by (simp_all add: update_move_def move_assign_def move_ctor_def must_check_def mark_checked_def
        ok_def code_def message_def context_of_def)

lemma update_failed_keeps:
  "\<not> ok s \<Longrightarrow> state (fst (update s n)) = state s \<and> state (fst (update_move mfs s n)) = state s"
  by (simp add: update_def update_move_def mark_checked_def ok_def)

text \<open>
  C6. For every status \<open>s\<close> and every status \<open>n\<close>, \<open>s.update(n)\<close> (the copying and the moving
  overload alike) leaves \<open>s\<close> holding the code, message and context of \<open>n\<close> when \<open>s\<close> is
  success, and
  leaves the state of \<open>s\<close>, so its code and message, untouched when \<open>s\<close> already holds a
  failure, whatever \<open>n\<close> is: the first error wins.
\<close>

theorem update_first_error_wins:
  "(ok s \<longrightarrow>
      code (fst (update s n)) = code n \<and> message (fst (update s n)) = message n \<and>
      context_of (fst (update s n)) = context_of n \<and>
      code (fst (update_move mfs s n)) = code n \<and> message (fst (update_move mfs s n)) = message n \<and>
      context_of (fst (update_move mfs s n)) = context_of n) \<and>
   (\<not> ok s \<longrightarrow>
      code (fst (update s n)) = code s \<and> message (fst (update s n)) = message s \<and>
      state (fst (update s n)) = state s \<and>
      code (fst (update_move mfs s n)) = code s \<and> message (fst (update_move mfs s n)) = message s \<and>
      state (fst (update_move mfs s n)) = state s)"
  using update_ok_adopts [of s n] update_move_ok_adopts [of s mfs n] update_failed_keeps [of s n mfs]
  by (simp add: code_def message_def)

text \<open>
  C6 at concrete statuses: a success adopts a not-found failure; an I/O failure keeps its
  code and message against a later failure and against a later success.
\<close>

theorem update_first_error_wins_witness:
  "ok Status_OK \<and> code (fst (update Status_OK (Status_NotFound ''a''))) = NOT_FOUND \<and>
   message (fst (update Status_OK (Status_NotFound ''a''))) = ''a'' \<and>
   \<not> ok (Status_IOError ''first'') \<and>
   code (fst (update (Status_IOError ''first'') (Status_NotFound ''second''))) = IO_ERROR \<and>
   message (fst (update (Status_IOError ''first'') (Status_NotFound ''second''))) = ''first'' \<and>
   message (fst (update_move sentinel0 (Status_IOError ''first'') Status_OK)) = ''first''"
proof -
  have o: "ok Status_OK" by (simp add: Status_OK_def Status_default_def ok_def)
  have f: "\<not> ok (Status_IOError ''first'')"
    by (simp add: Status_IOError_def Status_ctor_def ok_def)
  have n: "code (Status_NotFound ''a'') = NOT_FOUND" "message (Status_NotFound ''a'') = ''a''"
    by (simp_all add: Status_NotFound_def Status_ctor_def code_def message_def)
  have i: "code (Status_IOError ''first'') = IO_ERROR" "message (Status_IOError ''first'') = ''first''"
    by (simp_all add: Status_IOError_def Status_ctor_def code_def message_def)
  from update_first_error_wins [of Status_OK "Status_NotFound ''a''" sentinel0] o n
  have a: "code (fst (update Status_OK (Status_NotFound ''a''))) = NOT_FOUND"
    "message (fst (update Status_OK (Status_NotFound ''a''))) = ''a''"
    by simp_all
  from update_first_error_wins [of "Status_IOError ''first''" "Status_NotFound ''second''" sentinel0] f i
  have b: "code (fst (update (Status_IOError ''first'') (Status_NotFound ''second''))) = IO_ERROR"
    "message (fst (update (Status_IOError ''first'') (Status_NotFound ''second''))) = ''first''"
    by simp_all
  from update_first_error_wins [of "Status_IOError ''first''" Status_OK sentinel0] f i
  have c: "message (fst (update_move sentinel0 (Status_IOError ''first'') Status_OK)) = ''first''"
    by simp
  from o f a b c show ?thesis by blast
qed

text \<open>
  C10. For every status \<open>s\<close>, \<open>ignore_not_found(s)\<close> is the success status when the code of
  \<open>s\<close> is \<open>NOT_FOUND\<close>, and otherwise has the code, message and context of \<open>s\<close> (and is
  success exactly when \<open>s\<close> is).
\<close>

theorem ignore_not_found_spec:
  "(code s = NOT_FOUND \<longrightarrow> ignore_not_found s = Status_OK \<and> ok (ignore_not_found s)) \<and>
   (code s \<noteq> NOT_FOUND \<longrightarrow>
      code (ignore_not_found s) = code s \<and> message (ignore_not_found s) = message s \<and>
      context_of (ignore_not_found s) = context_of s \<and> ok (ignore_not_found s) = ok s)"
  by (cases "state s")
     (simp_all add: ignore_not_found_def is_not_found_def copy_ctor_def Status_OK_def
        Status_default_def ok_def code_def message_def context_of_def)

text \<open>C10 at a not-found failure and at an I/O failure.\<close>

theorem ignore_not_found_spec_witness:
  "code (Status_NotFound ''gone'') = NOT_FOUND \<and> ok (ignore_not_found (Status_NotFound ''gone'')) \<and>
   code (Status_IOError ''disk'') \<noteq> NOT_FOUND \<and>
   code (ignore_not_found (Status_IOError ''disk'')) = IO_ERROR \<and>
   message (ignore_not_found (Status_IOError ''disk'')) = ''disk''"
proof -
  have nf: "code (Status_NotFound ''gone'') = NOT_FOUND"
    by (simp add: Status_NotFound_def Status_ctor_def code_def)
  have io: "code (Status_IOError ''disk'') = IO_ERROR" "message (Status_IOError ''disk'') = ''disk''"
    by (simp_all add: Status_IOError_def Status_ctor_def code_def message_def)
  from io have ne: "code (Status_IOError ''disk'') \<noteq> NOT_FOUND" by simp
  from ignore_not_found_spec [of "Status_NotFound ''gone''"] nf
  have a: "ok (ignore_not_found (Status_NotFound ''gone''))" by blast
  from ignore_not_found_spec [of "Status_IOError ''disk''"] ne io
  have b: "code (ignore_not_found (Status_IOError ''disk'')) = IO_ERROR"
          "message (ignore_not_found (Status_IOError ''disk'')) = ''disk''" by auto
  from nf ne a b show ?thesis by blast
qed

text \<open>
  C8. For every status, the conversion to the wire form (\<open>TStatus\<close> or \<open>StatusPB\<close>) followed
  by the construction of a status from that wire form gives a status with the same code and
  the same message, whether or not the transport carries the context.
\<close>

theorem wire_round_trip:
  "code (Status_from_TStatus (to_thrift k s)) = code s \<and>
   message (Status_from_TStatus (to_thrift k s)) = message s \<and>
   code (Status_from_StatusPB (to_protobuf k s)) = code s \<and>
   message (Status_from_StatusPB (to_protobuf k s)) = message s"
  by (cases "state s")
     (simp_all add: Status_from_TStatus_def to_thrift_def Status_from_StatusPB_def to_protobuf_def
        to_wire_def Status_from_wire_def Status_default_def Status_ctor_def ok_def code_def message_def)

text \<open>C8 at an I/O failure with a context, over a transport that drops the context.\<close>

theorem wire_round_trip_witness:
  "code (Status_from_TStatus (to_thrift False (Status_ctor IO_ERROR ''disk'' ''at x.cpp:3''))) = IO_ERROR \<and>
   message (Status_from_TStatus (to_thrift False (Status_ctor IO_ERROR ''disk'' ''at x.cpp:3''))) = ''disk'' \<and>
   context_of (Status_from_TStatus (to_thrift False (Status_ctor IO_ERROR ''disk'' ''at x.cpp:3''))) = []"
  using wire_round_trip [of False "Status_ctor IO_ERROR ''disk'' ''at x.cpp:3''"]
  by (simp add: Status_from_TStatus_def to_thrift_def to_wire_def Status_from_wire_def
        Status_ctor_def ok_def code_def message_def context_of_def)

text \<open>
  C7, as the code has it. A default-constructed status is success. A move leaves its source
  marked checked, so the destructor of the source prints no unchecked-status report in any
  build, and hands nothing to \<open>delete[]\<close>; the object constructed takes the state of the
  source. The source itself holds the moved-from sentinel, which is not the null pointer
  that \<open>ok()\<close> tests for: the moved-from status is not success, and its code is the one
  stored in the sentinel.
\<close>

theorem default_and_moved_from:
  "ok Status_default \<and>
   \<not> dtor_reports strict (snd (move_ctor mfs s)) \<and>
   dtor_frees (snd (move_ctor mfs s)) = None \<and>
   state (fst (move_ctor mfs s)) = state s \<and>
   \<not> ok (snd (move_ctor mfs s)) \<and>
   code (snd (move_ctor mfs s)) = sa_code mfs"
  by (simp add: Status_default_def move_ctor_def mark_checked_def ok_def dtor_reports_def
        dtor_frees_def code_def)

text \<open>The statement of C7 above at an I/O failure that is moved from, in a strict build.\<close>

theorem default_and_moved_from_witness:
  "ok Status_default \<and>
   \<not> dtor_reports True (snd (move_ctor sentinel0 (Status_IOError ''disk''))) \<and>
   dtor_frees (snd (move_ctor sentinel0 (Status_IOError ''disk''))) = None \<and>
   message (fst (move_ctor sentinel0 (Status_IOError ''disk''))) = ''disk'' \<and>
   code (snd (move_ctor sentinel0 (Status_IOError ''disk''))) = INTERNAL_ERROR"
  using default_and_moved_from [of True sentinel0 "Status_IOError ''disk''"]
  by (simp add: sentinel0_def Status_IOError_def Status_ctor_def message_def)

text \<open>
  C7 in its original wording, "a Status that has been moved from is itself success", does
  not hold: the status left behind by moving from a default-constructed (success) status is
  not success.
\<close>

theorem moved_from_counterexample:
  "\<not> ok (snd (move_ctor sentinel0 Status_default))"
  by (simp add: move_ctor_def mark_checked_def ok_def)

section \<open>Properties of DirManager::init\<close>

subsection \<open>The regular expression is the query-id shape\<close>









subsection \<open>What the two loops delete\<close>




















section \<open>Properties of HashJoinBuildOperator\<close>

lemma ok_clone_and_append_context [simp]:
  "ok (clone_and_append_context f l x s) = ok s"
  by (cases "state s") (simp_all add: clone_and_append_context_def ok_def)

lemma not_ok_Status_Cancelled [simp]: "\<not> ok (Status_Cancelled msg)"
  by (simp add: Status_Cancelled_def Status_ctor_def ok_def)

lemma ok_Status_OK [simp]: "ok Status_OK"
  by (simp add: Status_OK_def Status_default_def ok_def)

lemma code_Status_Cancelled [simp]: "code (Status_Cancelled msg) = CANCELLED"
  by (simp add: Status_Cancelled_def Status_ctor_def code_def)

lemma code_Status_OK [simp]: "code Status_OK = OK"
  by (simp add: Status_OK_def Status_default_def code_def)

subsection \<open>prepare\<close>

text \<open>
  C4. \<open>prepare\<close> calls \<open>Operator::prepare\<close> first. When that succeeds it registers the lane
  (the builder count grows by exactly one) and takes exactly two references to the Joiner,
  then calls \<open>prepare_builder\<close>; it returns success exactly when both calls succeed. When
  \<open>prepare\<close> returns a failure the two counts are consistent: either neither was touched
  (\<open>Operator::prepare\<close> failed) or the builder count grew by one and the reference count by
  two (\<open>prepare_builder\<close> failed); never one without the other, never a single reference.
\<close>

theorem prepare_registers_lane:
  "(ok (Operator_prepare_result e) \<longrightarrow>
      num_builders (snd (prepare e this w)) = num_builders w + 1 \<and>
      joiner_refs (snd (prepare e this w)) = joiner_refs w + 2 \<and>
      calls (snd (prepare e this w)) =
        calls w @ [Call_Operator_prepare, Call_incr_builder, Call_ref, Call_ref, Call_prepare_builder]) \<and>
   (\<not> ok (Operator_prepare_result e) \<longrightarrow>
      \<not> ok (fst (prepare e this w)) \<and>
      num_builders (snd (prepare e this w)) = num_builders w \<and>
      joiner_refs (snd (prepare e this w)) = joiner_refs w \<and>
      calls (snd (prepare e this w)) = calls w @ [Call_Operator_prepare]) \<and>
   ok (fst (prepare e this w)) = (ok (Operator_prepare_result e) \<and> ok (prepare_builder_result e)) \<and>
   (\<not> ok (fst (prepare e this w)) \<longrightarrow>
      (num_builders (snd (prepare e this w)) = num_builders w \<and>
       joiner_refs (snd (prepare e this w)) = joiner_refs w) \<or>
      (num_builders (snd (prepare e this w)) = num_builders w + 1 \<and>
       joiner_refs (snd (prepare e this w)) = joiner_refs w + 2))"
  by (simp add: prepare_def Let_def incr_builder_def joiner_ref_def record_call_def)

text \<open>
  C4 at a successful \<open>prepare\<close>, at a failure of \<open>prepare_builder\<close> and at a failure of
  \<open>Operator::prepare\<close>.
\<close>

theorem prepare_registers_lane_witness:
  "ok (fst (prepare env_ok lane0 world0)) \<and>
   num_builders (snd (prepare env_ok lane0 world0)) = 1 \<and>
   joiner_refs (snd (prepare env_ok lane0 world0)) = 2 \<and>
   \<not> ok (fst (prepare (env_ok\<lparr>prepare_builder_result := Status_InternalError ''no memory''\<rparr>) lane0 world0)) \<and>
   num_builders (snd (prepare (env_ok\<lparr>prepare_builder_result := Status_InternalError ''no memory''\<rparr>) lane0 world0)) = 1 \<and>
   joiner_refs (snd (prepare (env_ok\<lparr>prepare_builder_result := Status_InternalError ''no memory''\<rparr>) lane0 world0)) = 2 \<and>
   \<not> ok (fst (prepare (env_ok\<lparr>Operator_prepare_result := Status_InternalError ''bad plan''\<rparr>) lane0 world0)) \<and>
   num_builders (snd (prepare (env_ok\<lparr>Operator_prepare_result := Status_InternalError ''bad plan''\<rparr>) lane0 world0)) = 0 \<and>
   joiner_refs (snd (prepare (env_ok\<lparr>Operator_prepare_result := Status_InternalError ''bad plan''\<rparr>) lane0 world0)) = 0"
proof -
  have e1: "ok (Operator_prepare_result env_ok)" "ok (prepare_builder_result env_ok)"
    by (simp_all add: env_ok_def)
  have e2: "ok (Operator_prepare_result (env_ok\<lparr>prepare_builder_result := Status_InternalError ''no memory''\<rparr>))"
    "\<not> ok (prepare_builder_result (env_ok\<lparr>prepare_builder_result := Status_InternalError ''no memory''\<rparr>))"
    by (simp_all add: env_ok_def Status_InternalError_def Status_ctor_def Status_OK_def
          Status_default_def ok_def)
  have e3: "\<not> ok (Operator_prepare_result (env_ok\<lparr>Operator_prepare_result := Status_InternalError ''bad plan''\<rparr>))"
    by (simp add: Status_InternalError_def Status_ctor_def ok_def)
  have w: "num_builders world0 = 0" "joiner_refs world0 = 0" by (simp_all add: world0_def)
  from prepare_registers_lane [of env_ok lane0 world0] e1 w
       prepare_registers_lane [of "env_ok\<lparr>prepare_builder_result := Status_InternalError ''no memory''\<rparr>" lane0 world0] e2
       prepare_registers_lane [of "env_ok\<lparr>Operator_prepare_result := Status_InternalError ''bad plan''\<rparr>" lane0 world0] e3
  show ?thesis by simp
qed

subsection \<open>pull_chunk\<close>

text \<open>
  C5, as the code has it. Every call of \<open>pull_chunk\<close>, in every state, fails the
  \<open>CHECK(false)\<close> that carries the message "pull_chunk not supported in
  HashJoinBuildOperator": the process is terminated with that message and the call does
  not return; in particular it returns no chunk. The \<open>return Status::NotSupported(msg)\<close>
  behind the check is never reached.
\<close>

theorem pull_chunk_is_fatal:
  "(pull_chunk this w :: (status + 'chunk) outcome \<times> world) = (Aborted pull_chunk_msg, w) \<and>
   (\<forall>r. fst (pull_chunk this w :: (status + 'chunk) outcome \<times> world) \<noteq> Returned r)"
  by (simp add: pull_chunk_def CHECK_def)

text \<open>The statement of C5 above on lane 0.\<close>

theorem pull_chunk_is_fatal_witness:
  "pull_chunk lane0 world0 =
     ((Aborted ''pull_chunk not supported in HashJoinBuildOperator'' :: (status + nat) outcome), world0)"
  using pull_chunk_is_fatal [where ?'chunk = nat and this = lane0 and w = world0]
  by (simp add: pull_chunk_msg_def)

text \<open>
  C5 in its original wording, "the call returns a not supported error result", does not
  hold: on lane 0 the outcome of the call is not a returned "not supported" status.
\<close>

theorem pull_chunk_counterexample:
  "fst (pull_chunk lane0 world0) \<noteq>
     (Returned (Inl (Status_NotSupported ''pull_chunk not supported in HashJoinBuildOperator''))
        :: (status + nat) outcome)"
  by (simp add: pull_chunk_def CHECK_def)

subsection \<open>set_finishing\<close>

lemma set_finishing_proceed:
  "snd (once (set_finishing_once this)) = Once_proceed \<Longrightarrow>
   set_finishing once dchecks e this w =
     (case set_finishing_body dchecks e this w of
        (Returned st, w') \<Rightarrow>
          (Returned st, this\<lparr>set_finishing_once := fst (once (set_finishing_once this)),
                             is_finished := True\<rparr>, w')
      | (Aborted msg, w') \<Rightarrow>
          (Aborted msg, this\<lparr>set_finishing_once := fst (once (set_finishing_once this))\<rparr>, w')
      | (Undefined msg, w') \<Rightarrow>
          (Undefined msg, this\<lparr>set_finishing_once := fst (once (set_finishing_once this))\<rparr>, w'))"
  by (cases "once (set_finishing_once this)")
     (simp add: set_finishing_def split: prod.splits outcome.splits)

lemma set_finishing_body_cancelled:
  "rs_is_cancelled e \<Longrightarrow>
   set_finishing_body dchecks e this w = (Returned (Status_Cancelled ''runtime state is cancelled''), w)"
  by (simp add: set_finishing_body_def)



lemma total_bf_bytes_of_from:
  "foldl (\<lambda>total desc. total + (case runtime_filter desc of None \<Rightarrow> 0 | Some sz \<Rightarrow> sz)) a bfs =
   a + sum_list (map (\<lambda>desc. case runtime_filter desc of None \<Rightarrow> 0 | Some sz \<Rightarrow> sz) bfs)"
  by (induction bfs arbitrary: a) (simp_all add: add.assoc)

lemma total_bf_bytes_of_sum:
  "total_bf_bytes_of bfs =
   sum_list (map (\<lambda>desc. case runtime_filter desc of None \<Rightarrow> 0 | Some sz \<Rightarrow> sz) bfs)"
  by (simp add: total_bf_bytes_of_def total_bf_bytes_of_from)

lemma set_finishing_body_success:
  assumes "\<not> rs_is_cancelled e" "ok (build_ht_result e)"
    "\<not> dchecks \<or> distribution_mode this \<noteq> BROADCAST \<or> driver_sequence this = 0"
    "ok (create_runtime_filters_result e)"
    "0 \<le> driver_sequence this" "nat (driver_sequence this) < length (string_key_columns w)"
    "add_partial_filters_result e = Inr is_last"
  shows "set_finishing_body dchecks e this w =
     (Returned Status_OK,
      enter_probe_phase
        ((if is_last then publish_total_filters e this else (\<lambda>w. w))
           (record_call (Call_add_partial_filters (merger_index_of (driver_sequence this)) (ht_row_count e)
                           (partial_in_filters e) (partial_bloom_filter_build_params e)
                           (partial_bloom_filters e))
              (record_call (Call_retain_string_key_columns (driver_sequence this))
                 ((record_call Call_create_runtime_filters (record_call Call_build_ht w))
                    \<lparr>string_key_columns := (string_key_columns w)
                         [nat (driver_sequence this) := joiner_string_key_columns e]\<rparr>)))))"
  using assms
  by (auto simp add: set_finishing_body_def DCHECK_def CHECK_def Let_def
        retain_string_key_columns_def record_call_def)

lemma set_finishing_body_calls_build_ht:
  "\<not> rs_is_cancelled e \<Longrightarrow>
   \<exists>rest. calls (snd (set_finishing_body dchecks e this w)) = calls w @ Call_build_ht # rest"
  by (simp add: set_finishing_body_def DCHECK_def CHECK_def Let_def enter_probe_phase_def
        publish_total_filters_def set_collector_def publish_runtime_filters_def COUNTER_UPDATE_def
        retain_string_key_columns_def record_call_def split: sum.splits option.splits)

lemma publish_total_filters_ignores_flags:
  "publish_total_filters e (this\<lparr>is_finished := b, set_finishing_once := f\<rparr>) w =
   publish_total_filters e this w"
  by (simp add: publish_total_filters_def)

lemma set_finishing_body_ignores_flags:
  "set_finishing_body dchecks e (this\<lparr>is_finished := b, set_finishing_once := f\<rparr>) w =
   set_finishing_body dchecks e this w"
  by (simp add: set_finishing_body_def publish_total_filters_ignores_flags Let_def
        split: sum.splits option.splits cong: if_cong)





text \<open>
  C3. A call of \<open>set_finishing\<close> that gets past \<open>ONCE_DETECT\<close>, is not cancelled, whose
  \<open>build_ht\<close>, \<open>DCHECK\<close> and \<open>create_runtime_filters\<close> pass and whose driver sequence is
  an index of the factory's \<open>_string_key_columns\<close>, with \<open>add_partial_filters\<close> answering
  \<open>is_last\<close>. The call returns success and makes its calls in this order: \<open>build_ht\<close>,
  \<open>create_runtime_filters\<close>, \<open>retain_string_key_columns\<close> (which stores the Joiner's string
  key columns under the driver sequence), \<open>add_partial_filters\<close>; then, only if \<open>is_last\<close>,
  the update of the bloom-filter bytes metric, \<open>publish_runtime_filters\<close> with the merged
  bloom filters and \<open>set_collector\<close> under this operator's plan-node id; and last
  \<open>enter_probe_phase\<close>. The amount added to the metric is the total over all merged bloom
  filters: the sum, in \<open>size_t\<close> arithmetic, of \<open>bf_alloc_size()\<close> of every descriptor that
  has a runtime filter, a descriptor without one counting zero. If \<open>is_last\<close> the Hub holds
  the merged in-filters and bloom filters under the plan-node id afterwards and every other
  entry of the Hub is as before; if not, the metric, the published filters and the Hub are
  as before. In both cases the Joiner is in its probe phase.
\<close>

theorem set_finishing_final_contributor:
  assumes once: "snd (once (set_finishing_once this)) = Once_proceed"
    and run: "\<not> rs_is_cancelled e" "ok (build_ht_result e)"
      "\<not> dchecks \<or> distribution_mode this \<noteq> BROADCAST \<or> driver_sequence this = 0"
      "ok (create_runtime_filters_result e)"
    and range: "0 \<le> driver_sequence this"
      "nat (driver_sequence this) < length (string_key_columns w)"
    and last: "add_partial_filters_result e = Inr is_last"
    and res: "set_finishing once dchecks e this w = (r, this', w')"
  shows "r = Returned Status_OK \<and> joiner_phase w' = PROBE \<and>
     string_key_columns w' =
       (string_key_columns w)[nat (driver_sequence this) := joiner_string_key_columns e] \<and>
     calls w' = calls w @
       [Call_build_ht, Call_create_runtime_filters,
        Call_retain_string_key_columns (driver_sequence this),
        Call_add_partial_filters (merger_index_of (driver_sequence this)) (ht_row_count e)
          (partial_in_filters e) (partial_bloom_filter_build_params e) (partial_bloom_filters e)] @
       (if is_last
        then [Call_counter_update
                (sum_list (map (\<lambda>desc. case runtime_filter desc of None \<Rightarrow> 0 | Some sz \<Rightarrow> sz)
                   (total_bloom_filters e))),
              Call_publish_runtime_filters (total_bloom_filters e),
              Call_set_collector (plan_node_id this)]
        else []) @
       [Call_enter_probe_phase] \<and>
     (if is_last
      then partial_runtime_bloom_filter_bytes w' =
             partial_runtime_bloom_filter_bytes w +
             sum_list (map (\<lambda>desc. case runtime_filter desc of None \<Rightarrow> 0 | Some sz \<Rightarrow> sz)
               (total_bloom_filters e)) \<and>
           published w' = published w @ [total_bloom_filters e] \<and>
           collectors w' = (collectors w)(plan_node_id this :=
             Some \<lparr>in_filters = total_in_filters e, bloom_filters = total_bloom_filters e\<rparr>)
      else partial_runtime_bloom_filter_bytes w' = partial_runtime_bloom_filter_bytes w \<and>
           published w' = published w \<and> collectors w' = collectors w)"
proof -
  note body = set_finishing_body_success [OF run range last]
  from res set_finishing_proceed [of once this dchecks e w, OF once] body
  have r: "r = Returned Status_OK" and w': "w' = snd (set_finishing_body dchecks e this w)"
    by simp_all
  show ?thesis
    unfolding r w' body
    by (simp add: enter_probe_phase_def publish_total_filters_def set_collector_def
          publish_runtime_filters_def COUNTER_UPDATE_def total_bf_bytes_of_sum
          record_call_def Let_def)
qed

text \<open>C3 on lane 0, once as the final contributor and once not.\<close>

theorem set_finishing_final_contributor_witness:
  "collectors (snd (snd (set_finishing once_detect_off False env_ok lane0 world0))) 7 =
     Some \<lparr>in_filters = [1], bloom_filters = bfs0\<rparr> \<and>
   published (snd (snd (set_finishing once_detect_off False env_ok lane0 world0))) = [bfs0] \<and>
   partial_runtime_bloom_filter_bytes
     (snd (snd (set_finishing once_detect_off False env_ok lane0 world0))) = 4096 + 8192 \<and>
   string_key_columns
     (snd (snd (set_finishing once_detect_off False env_ok lane0 world0))) = [[5, 6], [], [], []] \<and>
   joiner_phase (snd (snd (set_finishing once_detect_off False env_ok lane0 world0))) = PROBE \<and>
   collectors (snd (snd (set_finishing once_detect_off False
       (env_ok\<lparr>add_partial_filters_result := Inr False\<rparr>) lane0 world0))) 7 = None \<and>
   published (snd (snd (set_finishing once_detect_off False
       (env_ok\<lparr>add_partial_filters_result := Inr False\<rparr>) lane0 world0))) = [] \<and>
   partial_runtime_bloom_filter_bytes (snd (snd (set_finishing once_detect_off False
       (env_ok\<lparr>add_partial_filters_result := Inr False\<rparr>) lane0 world0))) = 0 \<and>
   joiner_phase (snd (snd (set_finishing once_detect_off False
       (env_ok\<lparr>add_partial_filters_result := Inr False\<rparr>) lane0 world0))) = PROBE"
proof -
  let ?e = "env_ok\<lparr>add_partial_filters_result := Inr False\<rparr>"
  let ?A = "set_finishing once_detect_off False env_ok lane0 world0"
  let ?B = "set_finishing once_detect_off False ?e lane0 world0"
  have p: "snd (once_detect_off (set_finishing_once lane0)) = Once_proceed"
    by (simp add: once_detect_off_def)
  have eA: "\<not> rs_is_cancelled env_ok" "ok (build_ht_result env_ok)"
    "\<not> False \<or> distribution_mode lane0 \<noteq> BROADCAST \<or> driver_sequence lane0 = 0"
    "ok (create_runtime_filters_result env_ok)"
    by (simp_all add: env_ok_def)
  have eB: "\<not> rs_is_cancelled ?e" "ok (build_ht_result ?e)"
    "\<not> False \<or> distribution_mode lane0 \<noteq> BROADCAST \<or> driver_sequence lane0 = 0"
    "ok (create_runtime_filters_result ?e)"
    by (simp_all add: env_ok_def)
  have rg: "0 \<le> driver_sequence lane0" "nat (driver_sequence lane0) < length (string_key_columns world0)"
    by (simp_all add: lane0_def world0_def)
  have lA: "add_partial_filters_result env_ok = Inr True" by (simp add: env_ok_def)
  have lB: "add_partial_filters_result ?e = Inr False" by simp
  have rA: "?A = (fst ?A, fst (snd ?A), snd (snd ?A))" by simp
  have rB: "?B = (fst ?B, fst (snd ?B), snd (snd ?B))" by simp
  have v: "total_bloom_filters env_ok = bfs0" "total_in_filters env_ok = [1]"
    "sum_list (map (\<lambda>desc. case runtime_filter desc of None \<Rightarrow> 0 | Some sz \<Rightarrow> sz) bfs0) =
       (4096 + 8192 :: 64 word)"
    "plan_node_id lane0 = 7" "driver_sequence lane0 = 0"
    "joiner_string_key_columns env_ok = [5, 6]"
    "partial_runtime_bloom_filter_bytes world0 = 0" "published world0 = []"
    "collectors world0 = (\<lambda>node_id. None)" "string_key_columns world0 = [[], [], [], []]"
    by (simp_all add: env_ok_def bfs0_def lane0_def world0_def)
  from set_finishing_final_contributor [of once_detect_off lane0 env_ok False world0 True,
         OF p eA rg lA rA] v
  have a: "collectors (snd (snd ?A)) 7 = Some \<lparr>in_filters = [1], bloom_filters = bfs0\<rparr>"
    "published (snd (snd ?A)) = [bfs0]"
    "partial_runtime_bloom_filter_bytes (snd (snd ?A)) = 4096 + 8192"
    "string_key_columns (snd (snd ?A)) = [[5, 6], [], [], []]"
    "joiner_phase (snd (snd ?A)) = PROBE"
    by simp_all
  from set_finishing_final_contributor [of once_detect_off lane0 ?e False world0 False,
         OF p eB rg lB rB] v
  have b: "collectors (snd (snd ?B)) 7 = None" "published (snd (snd ?B)) = []"
    "partial_runtime_bloom_filter_bytes (snd (snd ?B)) = 0"
    "joiner_phase (snd (snd ?B)) = PROBE"
    by simp_all
  from a b show ?thesis by blast
qed

text \<open>
  C1, as the code has it. \<open>set_finishing\<close> has no guard of its own and keeps no record of
  its outcome; \<open>ONCE_DETECT\<close> is the only statement in front of the body. A call that
  \<open>ONCE_DETECT\<close> lets through has the outcome and the effects of the body, which reads
  neither the finished flag nor the once flag: on an operator that has already finished it
  polls the cancellation flag again and, when the query is not cancelled, calls \<open>build_ht\<close>
  again. A call that \<open>ONCE_DETECT\<close> stops makes no call on the shared objects, and its
  outcome is the one \<open>ONCE_DETECT\<close> gives (a status of its own, or the end of the process).
\<close>

theorem set_finishing_second_call:
  "(snd (once (set_finishing_once this)) = Once_proceed \<longrightarrow>
      fst (set_finishing once dchecks e this w) = fst (set_finishing_body dchecks e this w) \<and>
      snd (snd (set_finishing once dchecks e this w)) = snd (set_finishing_body dchecks e this w) \<and>
      set_finishing_body dchecks e (this\<lparr>is_finished := True, set_finishing_once := True\<rparr>) w =
        set_finishing_body dchecks e this w \<and>
      (\<not> rs_is_cancelled e \<longrightarrow>
         (\<exists>rest. calls (snd (snd (set_finishing once dchecks e this w))) =
                    calls w @ Call_build_ht # rest))) \<and>
   (\<forall>st. snd (once (set_finishing_once this)) = Once_return st \<longrightarrow>
      set_finishing once dchecks e this w =
        (Returned st, this\<lparr>set_finishing_once := fst (once (set_finishing_once this))\<rparr>, w)) \<and>
   (snd (once (set_finishing_once this)) = Once_abort \<longrightarrow>
      (\<exists>msg. set_finishing once dchecks e this w =
        (Aborted msg, this\<lparr>set_finishing_once := fst (once (set_finishing_once this))\<rparr>, w)))"
proof -
  have proceed: "fst (set_finishing once dchecks e this w) = fst (set_finishing_body dchecks e this w) \<and>
      snd (snd (set_finishing once dchecks e this w)) = snd (set_finishing_body dchecks e this w)"
    if "snd (once (set_finishing_once this)) = Once_proceed"
    using set_finishing_proceed [of once this dchecks e w, OF that]
    by (simp split: prod.splits outcome.splits)
  have again: "\<exists>rest. calls (snd (snd (set_finishing once dchecks e this w))) =
                    calls w @ Call_build_ht # rest"
    if "snd (once (set_finishing_once this)) = Once_proceed" "\<not> rs_is_cancelled e"
    using proceed [OF that(1)] set_finishing_body_calls_build_ht [OF that(2), of dchecks this w]
    by simp
  have stopped: "set_finishing once dchecks e this w =
        (Returned st, this\<lparr>set_finishing_once := fst (once (set_finishing_once this))\<rparr>, w)"
    if "snd (once (set_finishing_once this)) = Once_return st" for st
    using that by (cases "once (set_finishing_once this)") (simp add: set_finishing_def)
  have fatal: "\<exists>msg. set_finishing once dchecks e this w =
        (Aborted msg, this\<lparr>set_finishing_once := fst (once (set_finishing_once this))\<rparr>, w)"
    if "snd (once (set_finishing_once this)) = Once_abort"
    using that by (cases "once (set_finishing_once this)") (simp add: set_finishing_def)
  from proceed again stopped fatal set_finishing_body_ignores_flags [where b = True and f = True]
  show ?thesis by blast
qed

text \<open>
  The statement of C1 above at two calls: a call on a finished lane 0 with \<open>ONCE_DETECT\<close>
  expanding to nothing calls \<open>build_ht\<close>; a second call under a guard that returns
  success returns success although the query is cancelled.
\<close>

theorem set_finishing_second_call_witness:
  "snd (once_detect_off (set_finishing_once (lane0\<lparr>is_finished := True\<rparr>))) = Once_proceed \<and>
   \<not> rs_is_cancelled env_ok \<and>
   (\<exists>rest. calls (snd (snd (set_finishing once_detect_off False env_ok
               (lane0\<lparr>is_finished := True\<rparr>) world0))) = calls world0 @ Call_build_ht # rest) \<and>
   snd (once_detect_guard (set_finishing_once (lane0\<lparr>set_finishing_once := True\<rparr>))) =
     Once_return Status_OK \<and>
   set_finishing once_detect_guard False env_cancelled (lane0\<lparr>set_finishing_once := True\<rparr>) world0 =
     (Returned Status_OK, lane0\<lparr>set_finishing_once := True\<rparr>, world0)"
proof -
  have p: "snd (once_detect_off (set_finishing_once (lane0\<lparr>is_finished := True\<rparr>))) = Once_proceed"
    by (simp add: once_detect_off_def)
  have n: "\<not> rs_is_cancelled env_ok" by (simp add: env_ok_def)
  have g: "snd (once_detect_guard (set_finishing_once (lane0\<lparr>set_finishing_once := True\<rparr>))) =
     Once_return Status_OK"
    "fst (once_detect_guard (set_finishing_once (lane0\<lparr>set_finishing_once := True\<rparr>))) = True"
    by (simp_all add: once_detect_guard_def)
  from set_finishing_second_call [of once_detect_off "lane0\<lparr>is_finished := True\<rparr>" False env_ok world0] p n
  have a: "\<exists>rest. calls (snd (snd (set_finishing once_detect_off False env_ok
               (lane0\<lparr>is_finished := True\<rparr>) world0))) = calls world0 @ Call_build_ht # rest"
    by blast
  from set_finishing_second_call [of once_detect_guard "lane0\<lparr>set_finishing_once := True\<rparr>" False
         env_cancelled world0] g
  have b: "set_finishing once_detect_guard False env_cancelled (lane0\<lparr>set_finishing_once := True\<rparr>) world0 =
     (Returned Status_OK, lane0\<lparr>set_finishing_once := True\<rparr>, world0)"
    by simp
  from p n a g(1) b show ?thesis by blast
qed

text \<open>
  C1 in its original wording, "a second call is a no-op that performs no build or filter
  work and returns the same outcome as the first call", does not hold under any of the
  three expansions of \<open>ONCE_DETECT\<close>: with no expansion the second call does the build and
  filter work again; with the fatal assertion the second call does not return; with the
  guard the second call returns success after a first call that returned the cancellation
  error.
\<close>

theorem second_call_counterexample:
  "\<not> second_call_is_noop once_detect_off False env_ok env_ok lane0 world0 \<and>
   \<not> second_call_is_noop once_detect_fatal False env_ok env_ok lane0 world0 \<and>
   \<not> second_call_is_noop once_detect_guard False env_cancelled env_cancelled lane0 world0"
proof (intro conjI)
  show "\<not> second_call_is_noop once_detect_off False env_ok env_ok lane0 world0"
    by (simp add: second_call_is_noop_def set_finishing_twice_def
        set_finishing_def set_finishing_body_def once_detect_off_def env_ok_def lane0_def
        world0_def DCHECK_def CHECK_def Let_def enter_probe_phase_def publish_total_filters_def
        set_collector_def publish_runtime_filters_def COUNTER_UPDATE_def
        retain_string_key_columns_def record_call_def merger_index_of_def total_bf_bytes_of_def
        bfs0_def)
  show "\<not> second_call_is_noop once_detect_fatal False env_ok env_ok lane0 world0"
    by (simp add: second_call_is_noop_def set_finishing_twice_def
        set_finishing_def set_finishing_body_def once_detect_fatal_def env_ok_def lane0_def
        world0_def DCHECK_def CHECK_def Let_def retain_string_key_columns_def record_call_def)
  show "\<not> second_call_is_noop once_detect_guard False env_cancelled env_cancelled lane0 world0"
    by (simp add: second_call_is_noop_def set_finishing_twice_def
        set_finishing_def set_finishing_body_def once_detect_guard_def env_cancelled_def env_ok_def
        lane0_def world0_def code_def Status_Cancelled_def Status_OK_def Status_default_def
        Status_ctor_def)
qed

text \<open>
  No expansion of \<open>ONCE_DETECT\<close> that lets a first call run makes the second call a no-op
  with the outcome of the first, both after a successful and after a cancelled first call:
  the macro sees the flag only, and the two first calls leave the same flag.
\<close>

lemma first_call_cancelled:
  "snd (once False) = Once_proceed \<Longrightarrow>
   set_finishing once dchecks env_cancelled lane0 world0 =
     (Returned (Status_Cancelled ''runtime state is cancelled''),
      lane0\<lparr>set_finishing_once := fst (once False), is_finished := True\<rparr>, world0)"
  using set_finishing_proceed [of once lane0 dchecks env_cancelled world0]
        set_finishing_body_cancelled [of env_cancelled dchecks lane0 world0]
  by (simp add: lane0_def env_cancelled_def)

lemma first_call_succeeds:
  "snd (once False) = Once_proceed \<Longrightarrow>
   set_finishing once dchecks env_ok lane0 world0 =
     (Returned Status_OK,
      lane0\<lparr>set_finishing_once := fst (once False), is_finished := True\<rparr>,
      snd (set_finishing_body dchecks env_ok lane0 world0))"
  using set_finishing_proceed [of once lane0 dchecks env_ok world0]
        set_finishing_body_success [of env_ok dchecks lane0 world0 True]
  by (simp add: lane0_def env_ok_def world0_def)

lemma calls_grow_differs: "calls w2 = calls w1 @ c # rest \<Longrightarrow> w2 \<noteq> w1"
  by auto

theorem no_once_detect_makes_second_call_noop:
  assumes first: "snd (once False) = Once_proceed"
  shows "\<not> (second_call_is_noop once dchecks env_ok env_ok lane0 world0 \<and>
            second_call_is_noop once dchecks env_cancelled env_cancelled lane0 world0)"
proof
  assume both: "second_call_is_noop once dchecks env_ok env_ok lane0 world0 \<and>
                second_call_is_noop once dchecks env_cancelled env_cancelled lane0 world0"
  let ?f = "fst (once False)"
  let ?laneA = "lane0\<lparr>set_finishing_once := ?f, is_finished := True\<rparr>"
  let ?wA = "snd (set_finishing_body dchecks env_ok lane0 world0)"
  let ?secondA = "set_finishing once dchecks env_ok ?laneA ?wA"
  let ?secondB = "set_finishing once dchecks env_cancelled ?laneA world0"
  from both first_call_succeeds [of once dchecks, OF first]
  have A: "snd (snd ?secondA) = ?wA" "same_outcome (Returned Status_OK) (fst ?secondA)"
    by (auto simp add: second_call_is_noop_def set_finishing_twice_def split: prod.splits)
  from both first_call_cancelled [of once dchecks, OF first]
  have B: "same_outcome (Returned (Status_Cancelled ''runtime state is cancelled'')) (fst ?secondB)"
    by (auto simp add: second_call_is_noop_def set_finishing_twice_def split: prod.splits)
  have flag: "set_finishing_once ?laneA = ?f" by simp
  show False
  proof (cases "snd (once ?f)")
    case Once_proceed
    then have p: "snd (once (set_finishing_once ?laneA)) = Once_proceed" by (simp only: flag)
    have "\<not> rs_is_cancelled env_ok" by (simp add: env_ok_def)
    from set_finishing_body_calls_build_ht [OF this, of dchecks ?laneA ?wA]
      set_finishing_proceed [of once ?laneA dchecks env_ok ?wA, OF p]
    obtain rest where "calls (snd (snd ?secondA)) = calls ?wA @ Call_build_ht # rest"
      by (auto split: prod.splits outcome.splits)
    from calls_grow_differs [OF this] A(1) show False by simp
  next
    case (Once_return st)
    then have r: "snd (once (set_finishing_once ?laneA)) = Once_return st" by (simp only: flag)
    then have "fst ?secondA = Returned st" "fst ?secondB = Returned st"
      by (cases "once (set_finishing_once ?laneA)"; simp add: set_finishing_def)+
    with A(2) B show False by simp
  next
    case Once_abort
    then have r: "snd (once (set_finishing_once ?laneA)) = Once_abort" by (simp only: flag)
    then have "\<exists>msg. fst ?secondA = Aborted msg"
      by (cases "once (set_finishing_once ?laneA)") (simp add: set_finishing_def)
    with A(2) show False by auto
  qed
qed

end
